theory Spec2Isabelle
  imports Complex_Main "HOL-Library.AList"
begin

section \<open>Data model of \<open>kernel/concurrency/task_manager.py\<close>\<close>

text \<open>
  The task manager is a Python class whose methods mutate the fields of one object.
  Every method becomes a function that takes the manager and returns the new one.
  An \<open>await\<close> is a point where other coroutines run, so a coroutine method is cut at its
  awaits into the sections that run without interruption; the deferred computation a
  task stands for is opaque, and the way it settles is an input (\<open>outcome\<close>).
  Wall-clock readings (\<open>time.time()\<close>) are passed in as \<open>now\<close>, in seconds; rounding of
  floating point numbers is not modelled. Log output is not modelled.
\<close>

datatype TaskPriority = LOW | NORMAL | HIGH | CRITICAL

fun priority_value :: "TaskPriority \<Rightarrow> int" where
  "priority_value LOW = 0"
| "priority_value NORMAL = 1"
| "priority_value HIGH = 2"
| "priority_value CRITICAL = 3"

datatype TaskState = QUEUED | WAITING | RUNNING | COMPLETED | FAILED | CANCELLED | RETRYING

text \<open>Values returned by a unit of work, and the exceptions the module raises or stores.
  \<open>ManagerNotRunning\<close> is the \<open>RuntimeError\<close> of \<open>submit_task\<close>, \<open>TaskNotFound\<close> the
  \<open>ValueError\<close> of \<open>wait_for_task\<close>, \<open>DependencyFailed d\<close> the \<open>Exception\<close> whose message
  ends in the dependency id \<open>d\<close>, \<open>SemaphoreValueError\<close> the \<open>ValueError\<close> of
  \<open>asyncio.Semaphore\<close> on a negative value, \<open>SemaphoreMissing\<close> the \<open>AttributeError\<close> of
  \<open>None.acquire()\<close>, \<open>WorkError\<close> any exception of a work body.\<close>

datatype pyval = PyNone | PyInt int | PyStr string

datatype pyerr =
    ManagerNotRunning
  | TaskNotFound string
  | DependencyFailed string
  | TimeoutError
  | CancelledError
  | SemaphoreValueError
  | SemaphoreMissing
  | WorkError string

text \<open>How an awaited \<open>asyncio.Task\<close> settles.\<close>

datatype outcome = Returned pyval | Raised pyerr | WasCancelled

record TaskConfig =
  priority :: TaskPriority
  timeout :: "real option"
  max_retries :: int
  retry_delay :: real
  dependencies :: "string list"
  metadata :: "(string \<times> pyval) list"
  cancel_on_dependency_failure :: bool
  enable_watchdog :: bool

definition default_TaskConfig :: TaskConfig where
  "default_TaskConfig =
     \<lparr> priority = NORMAL, timeout = None, max_retries = 0, retry_delay = 1,
       dependencies = [], metadata = [], cancel_on_dependency_failure = True,
       enable_watchdog = True \<rparr>"

text \<open>\<open>coro\<close>, \<open>args\<close> and \<open>kwargs\<close> of \<open>ManagedTask\<close> are the opaque work and are left out;
  \<open>task\<close> is a reference into the store of \<open>asyncio.Task\<close> objects. \<open>dependents\<close> is a
  Python set, whose iteration order is not specified; the model keeps its elements without
  repetition in the order they were added and iterates in that order.\<close>

record ManagedTask =
  task_id :: string
  name :: string
  config :: TaskConfig
  state :: TaskState
  task :: "nat option"
  watchdog_id :: "string option"
  result :: pyval
  error :: "pyerr option"
  retry_count :: int
  create_time :: real
  start_time :: "real option"
  end_time :: "real option"
  dependents :: "string list"

definition is_terminal_state :: "ManagedTask \<Rightarrow> bool" where
  "is_terminal_state t \<longleftrightarrow> state t \<in> {COMPLETED, FAILED, CANCELLED}"

definition can_retry :: "ManagedTask \<Rightarrow> bool" where
  "can_retry t \<longleftrightarrow> retry_count t < max_retries (config t)"

text \<open>\<open>_tasks\<close> is a dict: an association list in insertion order (the order in which
  \<open>_check_waiting_tasks\<close> walks it). \<open>_stats\<close> is a \<open>defaultdict(int)\<close>: a total function
  with value 0 at the keys never written. \<open>_semaphore\<close> holds the number of free permits.
  Callbacks are opaque callables; the manager stores their identities.\<close>

record TaskManager =
  tasks :: "(string \<times> ManagedTask) list"
  task_counter :: nat
  running :: bool
  max_concurrent_tasks :: int
  tm_enable_watchdog :: bool
  watchdog_check_interval :: real
  priority_queues :: "TaskPriority \<Rightarrow> string list"
  scheduler_spawned :: bool
  semaphore :: "int option"
  stats :: "string \<Rightarrow> int"
  on_task_complete_callbacks :: "nat list"
  on_task_failed_callbacks :: "nat list"
  has_watchdog :: bool

definition TaskManager_init :: "int \<Rightarrow> bool \<Rightarrow> real \<Rightarrow> TaskManager" where
  "TaskManager_init max_conc enable_wd interval =
     \<lparr> tasks = [], task_counter = 0, running = False,
       max_concurrent_tasks = max_conc, tm_enable_watchdog = enable_wd,
       watchdog_check_interval = interval,
       priority_queues = (\<lambda>_. []), scheduler_spawned = False, semaphore = None,
       stats = (\<lambda>_. 0),
       on_task_complete_callbacks = [], on_task_failed_callbacks = [],
       has_watchdog = enable_wd \<rparr>"

subsection \<open>Helpers for Python's built-ins\<close>

fun string_of_nat :: "nat \<Rightarrow> string" where
  "string_of_nat n =
     (if n < 10 then [''0123456789'' ! n]
      else string_of_nat (n div 10) @ [''0123456789'' ! (n mod 10)])"

declare string_of_nat.simps [simp del]

definition string_of_int :: "int \<Rightarrow> string" where
  "string_of_int i = (if i < 0 then ''-'' @ string_of_nat (nat (- i)) else string_of_nat (nat i))"

text \<open>\<open>int(x)\<close> on a float truncates towards zero.\<close>

definition py_int :: "real \<Rightarrow> int" where
  "py_int x = (if x < 0 then - \<lfloor>- x\<rfloor> else \<lfloor>x\<rfloor>)"

definition get_task :: "TaskManager \<Rightarrow> string \<Rightarrow> ManagedTask option" where
  "get_task m tid = map_of (tasks m) tid"

text \<open>Writing fields of the \<open>ManagedTask\<close> object stored under \<open>tid\<close>.\<close>

definition modify_task :: "string \<Rightarrow> (ManagedTask \<Rightarrow> ManagedTask) \<Rightarrow> TaskManager \<Rightarrow> TaskManager" where
  "modify_task tid f m = m\<lparr>tasks := AList.map_entry tid f (tasks m)\<rparr>"

definition bump_stat :: "string \<Rightarrow> int \<Rightarrow> TaskManager \<Rightarrow> TaskManager" where
  "bump_stat k d m = m\<lparr>stats := (stats m)(k := stats m k + d)\<rparr>"

definition get_tasks_by_state :: "TaskManager \<Rightarrow> TaskState \<Rightarrow> (string \<times> ManagedTask) list" where
  "get_tasks_by_state m st = filter (\<lambda>(tid, t). state t = st) (tasks m)"

section \<open>Submission, queues and the dependency check\<close>

text \<open>\<open>_enqueue_task\<close>: the queues are \<open>asyncio.Queue()\<close> without a size limit, so
  \<open>put_nowait\<close> appends and \<open>QueueFull\<close> is never raised.\<close>

definition enqueue_task :: "ManagedTask \<Rightarrow> TaskManager \<Rightarrow> TaskManager" where
  "enqueue_task mt m =
     (let p = priority (config mt)
      in m\<lparr>priority_queues := (priority_queues m)(p := priority_queues m p @ [task_id mt])\<rparr>)"

text \<open>The loop of \<open>_check_dependencies\<close> over \<open>task.config.dependencies\<close>; \<open>flag\<close> is the
  task's \<open>cancel_on_dependency_failure\<close>, read from the task object fetched before the loop.\<close>

fun check_dependencies_loop :: "string \<Rightarrow> bool \<Rightarrow> string list \<Rightarrow> TaskManager \<Rightarrow> bool \<times> TaskManager" where
  "check_dependencies_loop tid flag [] m = (True, m)"
| "check_dependencies_loop tid flag (dep_id # rest) m =
     (case get_task m dep_id of
        None \<Rightarrow> (False, m)
      | Some dep_task \<Rightarrow>
          (let m1 = modify_task dep_id (\<lambda>d. d\<lparr>dependents := List.insert tid (dependents d)\<rparr>) m
           in if state dep_task \<noteq> COMPLETED then
                (if state dep_task = FAILED \<and> flag then
                   (False,
                    bump_stat ''total_cancelled'' 1
                      (modify_task tid
                         (\<lambda>t. t\<lparr>state := CANCELLED, error := Some (DependencyFailed dep_id)\<rparr>) m1))
                 else (False, m1))
              else check_dependencies_loop tid flag rest m1))"

definition check_dependencies :: "string \<Rightarrow> TaskManager \<Rightarrow> bool \<times> TaskManager" where
  "check_dependencies tid m =
     (case get_task m tid of
        None \<Rightarrow> (False, m)
      | Some t \<Rightarrow>
          check_dependencies_loop tid (cancel_on_dependency_failure (config t))
            (dependencies (config t)) m)"

text \<open>\<open>submit_task\<close>. \<open>name or ...\<close> and \<open>config or TaskConfig()\<close> take the default for
  \<open>None\<close> (and for the empty name). The result is the raised error or the new id with the
  manager after the call.\<close>

definition new_task_id :: "nat \<Rightarrow> real \<Rightarrow> string" where
  "new_task_id counter now =
     ''task_'' @ string_of_nat counter @ ''_'' @ string_of_int (py_int (now * 1000))"

definition submit_task ::
  "string option \<Rightarrow> TaskConfig option \<Rightarrow> real \<Rightarrow> TaskManager \<Rightarrow> pyerr + (string \<times> TaskManager)"
where
  "submit_task name_opt config_opt now m =
     (if \<not> running m then Inl ManagerNotRunning
      else
        (let counter = task_counter m + 1;
             tid = new_task_id counter now;
             task_config = (case config_opt of None \<Rightarrow> default_TaskConfig | Some c \<Rightarrow> c);
             nm = (case name_opt of None \<Rightarrow> ''Task-'' @ string_of_nat counter
                   | Some n \<Rightarrow> if n = [] then ''Task-'' @ string_of_nat counter else n);
             managed_task =
               \<lparr> task_id = tid, name = nm, config = task_config, state = QUEUED,
                 task = None, watchdog_id = None, result = PyNone, error = None,
                 retry_count = 0, create_time = now, start_time = None, end_time = None,
                 dependents = [] \<rparr>;
             m1 = bump_stat ''total_submitted'' 1
                    (m\<lparr>task_counter := counter,
                       tasks := AList.update tid managed_task (tasks m)\<rparr>)
         in if dependencies task_config \<noteq> [] then
              (case check_dependencies tid m1 of
                 (True, m2) \<Rightarrow>
                   Inr (tid, enqueue_task managed_task (modify_task tid (\<lambda>t. t\<lparr>state := QUEUED\<rparr>) m2))
               | (False, m2) \<Rightarrow>
                   Inr (tid, modify_task tid (\<lambda>t. t\<lparr>state := WAITING\<rparr>) m2))
            else
              Inr (tid, enqueue_task managed_task (modify_task tid (\<lambda>t. t\<lparr>state := QUEUED\<rparr>) m1))))"

section \<open>Data model of \<open>kernel/concurrency/watchdog.py\<close>\<close>

datatype TaskStatus =
  ST_PENDING | ST_RUNNING | ST_COMPLETED | ST_FAILED | ST_TIMEOUT | ST_CANCELLED

text \<open>An \<open>asyncio.Task\<close>: whether \<open>cancel()\<close> has been called on it, how it settled
  (\<open>done()\<close> is \<open>settled \<noteq> None\<close>), and the watchdog entries whose done-callback
  (\<open>add_done_callback\<close> in \<open>register_task\<close>) is attached to it.\<close>

record AsyncTask =
  cancel_requested :: bool
  settled :: "outcome option"
  done_callbacks :: "string list"

record TaskInfo =
  info_task_id :: string
  info_name :: string
  info_task :: nat
  status :: TaskStatus
  info_start_time :: real
  info_end_time :: "real option"
  info_timeout :: "real option"
  info_metadata :: "(string \<times> pyval) list"
  info_error :: "pyerr option"

record Watchdog =
  wd_tasks :: "(string \<times> TaskInfo) list"
  wd_task_counter :: nat
  wd_running :: bool
  check_interval :: real
  default_timeout :: real
  enable_timeout_check :: bool
  enable_leak_detection :: bool
  on_timeout_callbacks :: "nat list"
  on_error_callbacks :: "nat list"
  on_complete_callbacks :: "nat list"
  wd_stats :: "string \<Rightarrow> int"

definition Watchdog_init :: Watchdog where
  "Watchdog_init =
     \<lparr> wd_tasks = [], wd_task_counter = 0, wd_running = False,
       check_interval = 1, default_timeout = 300,
       enable_timeout_check = True, enable_leak_detection = True,
       on_timeout_callbacks = [], on_error_callbacks = [], on_complete_callbacks = [],
       wd_stats = (\<lambda>_. 0) \<rparr>"

text \<open>The manager, the watchdog it shares (\<open>get_watchdog()\<close>) and the store of
  \<open>asyncio.Task\<close> objects, addressed by position.\<close>

record system =
  manager :: TaskManager
  watchdog :: Watchdog
  handles :: "AsyncTask list"

text \<open>A callback is user code: it is given by its identity in the callback sets and an
  environment says what running it does to the system. An exception escaping a callback is
  caught and printed by every caller, so only the callback's effect matters.\<close>

datatype cb_arg = CbManaged ManagedTask | CbWatch string TaskInfo

type_synonym cb_env = "nat \<Rightarrow> cb_arg \<Rightarrow> system \<Rightarrow> system"

definition in_manager :: "(TaskManager \<Rightarrow> TaskManager) \<Rightarrow> system \<Rightarrow> system" where
  "in_manager f sys = sys\<lparr>manager := f (manager sys)\<rparr>"

definition in_watchdog :: "(Watchdog \<Rightarrow> Watchdog) \<Rightarrow> system \<Rightarrow> system" where
  "in_watchdog f sys = sys\<lparr>watchdog := f (watchdog sys)\<rparr>"

definition bump_wd_stat :: "string \<Rightarrow> int \<Rightarrow> Watchdog \<Rightarrow> Watchdog" where
  "bump_wd_stat k d w = w\<lparr>wd_stats := (wd_stats w)(k := wd_stats w k + d)\<rparr>"

definition modify_info :: "string \<Rightarrow> (TaskInfo \<Rightarrow> TaskInfo) \<Rightarrow> Watchdog \<Rightarrow> Watchdog" where
  "modify_info wid f w = w\<lparr>wd_tasks := AList.map_entry wid f (wd_tasks w)\<rparr>"

definition wd_get_task_info :: "Watchdog \<Rightarrow> string \<Rightarrow> TaskInfo option" where
  "wd_get_task_info w wid = map_of (wd_tasks w) wid"

definition task_done :: "system \<Rightarrow> nat \<Rightarrow> bool" where
  "task_done sys h \<longleftrightarrow> h < length (handles sys) \<and> settled (handles sys ! h) \<noteq> None"

definition task_cancel :: "nat \<Rightarrow> system \<Rightarrow> system" where
  "task_cancel h sys =
     (if h < length (handles sys) \<and> settled (handles sys ! h) = None
      then sys\<lparr>handles := (handles sys)[h := (handles sys ! h)\<lparr>cancel_requested := True\<rparr>]\<rparr>
      else sys)"

subsection \<open>Watchdog operations\<close>

definition Watchdog_start :: "Watchdog \<Rightarrow> Watchdog" where
  "Watchdog_start w = (if wd_running w then w else w\<lparr>wd_running := True\<rparr>)"

definition Watchdog_stop :: "Watchdog \<Rightarrow> Watchdog" where
  "Watchdog_stop w = (if \<not> wd_running w then w else w\<lparr>wd_running := False\<rparr>)"

text \<open>\<open>register_task\<close>: \<open>id(task)\<close> is rendered by the position of the task in the store.\<close>

definition register_task ::
  "nat \<Rightarrow> string option \<Rightarrow> real option \<Rightarrow> (string \<times> pyval) list option \<Rightarrow> real \<Rightarrow> system
     \<Rightarrow> string \<times> system"
where
  "register_task h name_opt timeout_opt metadata_opt now sys =
     (let w = watchdog sys;
          counter = wd_task_counter w + 1;
          wid = ''task_'' @ string_of_nat counter @ ''_'' @ string_of_nat h;
          nm = (case name_opt of None \<Rightarrow> ''Task-'' @ string_of_nat counter
                | Some n \<Rightarrow> if n = [] then ''Task-'' @ string_of_nat counter else n);
          tmo = (case timeout_opt of None \<Rightarrow> default_timeout w
                 | Some t \<Rightarrow> if t = 0 then default_timeout w else t);
          task_info =
            \<lparr> info_task_id = wid, info_name = nm, info_task = h, status = ST_RUNNING,
              info_start_time = now, info_end_time = None, info_timeout = Some tmo,
              info_metadata = (case metadata_opt of None \<Rightarrow> [] | Some md \<Rightarrow> md),
              info_error = None \<rparr>;
          w1 = bump_wd_stat ''total_registered'' 1
                 (w\<lparr>wd_task_counter := counter,
                    wd_tasks := AList.update wid task_info (wd_tasks w)\<rparr>);
          hs = handles sys;
          hs1 = (if h < length hs
                 then hs[h := (hs ! h)\<lparr>done_callbacks := done_callbacks (hs ! h) @ [wid]\<rparr>]
                 else hs)
      in (wid, sys\<lparr>watchdog := w1, handles := hs1\<rparr>))"

definition unregister_task :: "string \<Rightarrow> Watchdog \<Rightarrow> bool \<times> Watchdog" where
  "unregister_task wid w =
     (if wid \<in> fst ` set (wd_tasks w)
      then (True, w\<lparr>wd_tasks := AList.delete wid (wd_tasks w)\<rparr>)
      else (False, w))"

definition is_alive :: "system \<Rightarrow> TaskInfo \<Rightarrow> bool" where
  "is_alive sys info \<longleftrightarrow> \<not> task_done sys (info_task info)"

definition info_duration :: "TaskInfo \<Rightarrow> real \<Rightarrow> real" where
  "info_duration info now =
     (case info_end_time info of
        None \<Rightarrow> now
      | Some e \<Rightarrow> if e = 0 then now else e) - info_start_time info"

definition is_timeout :: "TaskInfo \<Rightarrow> real \<Rightarrow> bool" where
  "is_timeout info now =
     (case info_timeout info of None \<Rightarrow> False | Some t \<Rightarrow> info_duration info now > t)"

text \<open>Every callback of a set is called with the entry's id and the entry object. The
  object is the one in the table; should a callback have unregistered it, the object the
  caller still holds (\<open>held\<close>) is passed.\<close>

definition run_watch_callbacks :: "cb_env \<Rightarrow> nat list \<Rightarrow> string \<Rightarrow> TaskInfo \<Rightarrow> system \<Rightarrow> system" where
  "run_watch_callbacks env cbs wid held sys =
     fold (\<lambda>cb s. case wd_get_task_info (watchdog s) wid of
                     None \<Rightarrow> env cb (CbWatch wid held) s
                   | Some info \<Rightarrow> env cb (CbWatch wid info) s) cbs sys"

definition wd_cancel_task :: "string \<Rightarrow> system \<Rightarrow> bool \<times> system" where
  "wd_cancel_task wid sys =
     (case wd_get_task_info (watchdog sys) wid of
        None \<Rightarrow> (False, sys)
      | Some info \<Rightarrow>
          if \<not> is_alive sys info then (False, sys)
          else (True,
                in_watchdog (\<lambda>w. bump_wd_stat ''total_cancelled'' 1
                                    (modify_info wid (\<lambda>i. i\<lparr>status := ST_CANCELLED\<rparr>) w))
                  (task_cancel (info_task info) sys)))"

definition add_timeout_callback :: "nat \<Rightarrow> Watchdog \<Rightarrow> Watchdog" where
  "add_timeout_callback cb w =
     (if cb \<in> set (on_timeout_callbacks w) then w
      else w\<lparr>on_timeout_callbacks := on_timeout_callbacks w @ [cb]\<rparr>)"

text \<open>\<open>_on_task_done\<close>, the done-callback of a registered task.\<close>

definition wd_on_task_done :: "cb_env \<Rightarrow> string \<Rightarrow> outcome \<Rightarrow> real \<Rightarrow> system \<Rightarrow> system" where
  "wd_on_task_done env wid oc now sys =
     (case wd_get_task_info (watchdog sys) wid of
        None \<Rightarrow> sys
      | Some info0 \<Rightarrow>
          (let s1 = in_watchdog (modify_info wid (\<lambda>i. i\<lparr>info_end_time := Some now\<rparr>)) sys
           in case oc of
                WasCancelled \<Rightarrow>
                  in_watchdog (\<lambda>w. bump_wd_stat ''total_cancelled'' 1
                                      (modify_info wid (\<lambda>i. i\<lparr>status := ST_CANCELLED\<rparr>) w)) s1
              | Raised e \<Rightarrow>
                  run_watch_callbacks env (on_error_callbacks (watchdog s1)) wid
                    (info0\<lparr>info_end_time := Some now, status := ST_FAILED, info_error := Some e\<rparr>)
                    (in_watchdog (\<lambda>w. bump_wd_stat ''total_failed'' 1
                                        (modify_info wid
                                           (\<lambda>i. i\<lparr>status := ST_FAILED, info_error := Some e\<rparr>) w)) s1)
              | Returned v \<Rightarrow>
                  run_watch_callbacks env (on_complete_callbacks (watchdog s1)) wid
                    (info0\<lparr>info_end_time := Some now, status := ST_COMPLETED\<rparr>)
                    (in_watchdog (\<lambda>w. bump_wd_stat ''total_completed'' 1
                                        (modify_info wid (\<lambda>i. i\<lparr>status := ST_COMPLETED\<rparr>) w)) s1)))"

text \<open>\<open>_handle_timeout\<close>: mark, count, call the timeout callbacks. No \<open>cancel()\<close> here.\<close>

definition handle_timeout :: "cb_env \<Rightarrow> string \<Rightarrow> TaskInfo \<Rightarrow> system \<Rightarrow> system" where
  "handle_timeout env wid task_info sys =
     run_watch_callbacks env (on_timeout_callbacks (watchdog sys)) wid
       (task_info\<lparr>status := ST_TIMEOUT\<rparr>)
       (in_watchdog (\<lambda>w. bump_wd_stat ''total_timeout'' 1
                           (modify_info wid (\<lambda>i. i\<lparr>status := ST_TIMEOUT\<rparr>) w)) sys)"

datatype wd_action = ActTimeout | ActCleanup

text \<open>\<open>_check_tasks\<close>: first the entries to handle are collected from a snapshot of the
  table, then they are handled in that order.\<close>

definition tasks_to_handle :: "real \<Rightarrow> system \<Rightarrow> (string \<times> TaskInfo \<times> wd_action) list" where
  "tasks_to_handle now sys =
     concat (map (\<lambda>(wid, info).
        if enable_timeout_check (watchdog sys) \<and> is_alive sys info \<and> is_timeout info now
        then [(wid, info, ActTimeout)]
        else if \<not> is_alive sys info \<and>
                (case info_end_time info of None \<Rightarrow> False
                 | Some e \<Rightarrow> e \<noteq> 0 \<and> now - e > 60)
        then [(wid, info, ActCleanup)]
        else []) (wd_tasks (watchdog sys)))"

definition check_tasks :: "cb_env \<Rightarrow> real \<Rightarrow> system \<Rightarrow> system" where
  "check_tasks env now sys =
     fold (\<lambda>(wid, info, act) s.
             case act of
               ActTimeout \<Rightarrow> handle_timeout env wid info s
             | ActCleanup \<Rightarrow> in_watchdog (\<lambda>w. snd (unregister_task wid w)) s)
       (tasks_to_handle now sys) sys"

section \<open>Dependency notification, cancellation and statistics\<close>

text \<open>The body shared by the loops of \<open>_notify_dependents\<close> and \<open>_check_waiting_tasks\<close>:
  a task that exists and is \<open>WAITING\<close> has its dependencies checked and is queued when
  the check succeeds.\<close>

definition reevaluate_waiting :: "string \<Rightarrow> TaskManager \<Rightarrow> TaskManager" where
  "reevaluate_waiting tid m =
     (case get_task m tid of
        None \<Rightarrow> m
      | Some t \<Rightarrow>
          if state t \<noteq> WAITING then m
          else (case check_dependencies tid m of
                  (True, m1) \<Rightarrow> enqueue_task t (modify_task tid (\<lambda>u. u\<lparr>state := QUEUED\<rparr>) m1)
                | (False, m1) \<Rightarrow> m1))"

definition notify_dependents :: "string \<Rightarrow> TaskManager \<Rightarrow> TaskManager" where
  "notify_dependents tid m =
     (case get_task m tid of
        None \<Rightarrow> m
      | Some t \<Rightarrow> fold reevaluate_waiting (dependents t) m)"

definition check_waiting_tasks :: "TaskManager \<Rightarrow> TaskManager" where
  "check_waiting_tasks m = fold reevaluate_waiting (map fst (tasks m)) m"

definition cancel_task :: "string \<Rightarrow> system \<Rightarrow> bool \<times> system" where
  "cancel_task tid sys =
     (case get_task (manager sys) tid of
        None \<Rightarrow> (False, sys)
      | Some mt \<Rightarrow>
          if state mt = RUNNING \<and> task mt \<noteq> None then (True, task_cancel (the (task mt)) sys)
          else if state mt \<in> {QUEUED, WAITING} then
            (True, in_manager (\<lambda>m. bump_stat ''total_cancelled'' 1
                                      (modify_task tid (\<lambda>t. t\<lparr>state := CANCELLED\<rparr>) m)) sys)
          else (False, sys))"

definition get_stats :: "TaskManager \<Rightarrow> (string \<times> int) list" where
  "get_stats m =
     [ (''total_submitted'', stats m ''total_submitted''),
       (''total_completed'', stats m ''total_completed''),
       (''total_failed'', stats m ''total_failed''),
       (''total_cancelled'', stats m ''total_cancelled''),
       (''total_retries'', stats m ''total_retries''),
       (''current_running'', int (length (get_tasks_by_state m RUNNING))),
       (''current_queued'', int (length (get_tasks_by_state m QUEUED))),
       (''current_waiting'', int (length (get_tasks_by_state m WAITING))),
       (''max_concurrent'', max_concurrent_tasks m) ]"

definition add_complete_callback :: "nat \<Rightarrow> TaskManager \<Rightarrow> TaskManager" where
  "add_complete_callback cb m = m\<lparr>on_task_complete_callbacks := on_task_complete_callbacks m @ [cb]\<rparr>"

definition add_failed_callback :: "nat \<Rightarrow> TaskManager \<Rightarrow> TaskManager" where
  "add_failed_callback cb m = m\<lparr>on_task_failed_callbacks := on_task_failed_callbacks m @ [cb]\<rparr>"

section \<open>Starting the manager\<close>

text \<open>\<open>start\<close>: nothing when already running; otherwise the flag, the semaphore
  (\<open>asyncio.Semaphore\<close> raises on a negative value, after the flag was set), the watchdog's
  interval and monitor, and the scheduler loop.\<close>

definition TaskManager_start :: "system \<Rightarrow> pyerr option \<times> system" where
  "TaskManager_start sys =
     (let m = manager sys
      in if running m then (None, sys)
         else if max_concurrent_tasks m < 0
         then (Some SemaphoreValueError, sys\<lparr>manager := m\<lparr>running := True\<rparr>\<rparr>)
         else
           (let m1 = m\<lparr>running := True, semaphore := Some (max_concurrent_tasks m)\<rparr>;
                w1 = (if has_watchdog m
                      then Watchdog_start ((watchdog sys)\<lparr>check_interval := watchdog_check_interval m\<rparr>)
                      else watchdog sys)
            in (None, sys\<lparr>manager := m1\<lparr>scheduler_spawned := True\<rparr>, watchdog := w1\<rparr>)))"

section \<open>The executor\<close>

text \<open>\<open>_execute_task\<close> up to \<open>await task\<close>. Acquiring the semaphore with no free permit
  suspends the caller (\<open>Blocked\<close>). The work factory is taken to return its coroutine.\<close>

datatype begin_result = NoSuchTask | Blocked | BeginRaised pyerr | Started nat system

definition execute_task_begin :: "string \<Rightarrow> real \<Rightarrow> system \<Rightarrow> begin_result" where
  "execute_task_begin tid now sys =
     (let m = manager sys
      in case get_task m tid of
           None \<Rightarrow> NoSuchTask
         | Some mt \<Rightarrow>
             (case semaphore m of
                None \<Rightarrow> BeginRaised SemaphoreMissing
              | Some permits \<Rightarrow>
                  if permits \<le> 0 then Blocked
                  else
                    (let h = length (handles sys);
                         m1 = bump_stat ''total_running'' 1
                                (modify_task tid
                                   (\<lambda>t. t\<lparr>state := RUNNING, start_time := Some now, task := Some h\<rparr>)
                                   (m\<lparr>semaphore := Some (permits - 1)\<rparr>));
                         s1 = sys\<lparr>manager := m1,
                                  handles := handles sys @
                                    [\<lparr>cancel_requested = False, settled = None, done_callbacks = []\<rparr>]\<rparr>
                     in if has_watchdog m \<and> enable_watchdog (config mt) then
                          (case register_task h (Some (name mt)) (timeout (config mt))
                                  (Some (metadata (config mt))) now s1 of
                             (wid, s2) \<Rightarrow>
                               Started h
                                 (in_manager (modify_task tid (\<lambda>t. t\<lparr>watchdog_id := Some wid\<rparr>)) s2))
                        else Started h s1)))"

text \<open>The awaited task settles: its done-callbacks (the watchdog's \<open>_on_task_done\<close>) run
  before the awaiting executor continues.\<close>

definition settle_task :: "cb_env \<Rightarrow> nat \<Rightarrow> outcome \<Rightarrow> real \<Rightarrow> system \<Rightarrow> system" where
  "settle_task env h oc now sys =
     (if h < length (handles sys) then
        fold (\<lambda>wid s. wd_on_task_done env wid oc now s) (done_callbacks (handles sys ! h))
          (sys\<lparr>handles := (handles sys)[h := (handles sys ! h)\<lparr>settled := Some oc\<rparr>]\<rparr>)
      else sys)"

definition run_task_callbacks :: "cb_env \<Rightarrow> nat list \<Rightarrow> string \<Rightarrow> ManagedTask \<Rightarrow> system \<Rightarrow> system" where
  "run_task_callbacks env cbs tid held sys =
     fold (\<lambda>cb s. case get_task (manager s) tid of
                     None \<Rightarrow> env cb (CbManaged held) s
                   | Some mt \<Rightarrow> env cb (CbManaged mt) s) cbs sys"

text \<open>The methods \<open>_on_task_success\<close>, \<open>_on_task_cancelled\<close> and \<open>_on_task_error\<close> get
  the task object; the model passes its id and reads the object in the table. Each is
  built from the sections between its awaits: the writes to the task and the counters,
  then the callbacks (user code, possibly awaited), then the notification.\<close>

definition mark_success :: "string \<Rightarrow> pyval \<Rightarrow> real \<Rightarrow> TaskManager \<Rightarrow> TaskManager" where
  "mark_success tid res now m =
     bump_stat ''total_completed'' 1
       (modify_task tid (\<lambda>t. t\<lparr>state := COMPLETED, result := res, end_time := Some now\<rparr>) m)"

definition on_task_success :: "cb_env \<Rightarrow> string \<Rightarrow> pyval \<Rightarrow> real \<Rightarrow> system \<Rightarrow> system" where
  "on_task_success env tid res now sys =
     (case get_task (manager sys) tid of
        None \<Rightarrow> sys
      | Some held \<Rightarrow>
          (let s1 = in_manager (mark_success tid res now) sys;
               s2 = run_task_callbacks env (on_task_complete_callbacks (manager s1)) tid
                      (held\<lparr>state := COMPLETED, result := res, end_time := Some now\<rparr>) s1
           in in_manager (notify_dependents tid) s2))"

definition on_task_cancelled :: "string \<Rightarrow> real \<Rightarrow> TaskManager \<Rightarrow> TaskManager" where
  "on_task_cancelled tid now m =
     notify_dependents tid
       (bump_stat ''total_cancelled'' 1
          (modify_task tid (\<lambda>t. t\<lparr>state := CANCELLED, end_time := Some now\<rparr>) m))"

text \<open>\<open>_on_task_error\<close> up to its first await: with a retry left (\<open>can_retry\<close>) the
  count goes up and the state is \<open>RETRYING\<close>, otherwise the state is \<open>FAILED\<close>.\<close>

definition mark_error :: "string \<Rightarrow> pyerr \<Rightarrow> real \<Rightarrow> TaskManager \<Rightarrow> TaskManager" where
  "mark_error tid e now m =
     (case get_task m tid of
        None \<Rightarrow> m
      | Some mt \<Rightarrow>
          if can_retry mt then
            bump_stat ''total_retries'' 1
              (modify_task tid
                 (\<lambda>t. t\<lparr>error := Some e, end_time := Some now,
                        retry_count := retry_count t + 1, state := RETRYING\<rparr>) m)
          else
            bump_stat ''total_failed'' 1
              (modify_task tid
                 (\<lambda>t. t\<lparr>error := Some e, end_time := Some now, state := FAILED\<rparr>) m))"

text \<open>After the sleep of \<open>retry_delay\<close>: back to \<open>QUEUED\<close> and into the queue.\<close>

definition requeue_after_retry :: "string \<Rightarrow> TaskManager \<Rightarrow> TaskManager" where
  "requeue_after_retry tid m =
     (case get_task m tid of
        None \<Rightarrow> m
      | Some mt \<Rightarrow>
          enqueue_task mt
            (modify_task tid
               (\<lambda>t. t\<lparr>state := QUEUED, task := None, start_time := None,
                      end_time := None, error := None\<rparr>) m))"

text \<open>\<open>_on_task_error\<close> as a whole. With a retry the result lists the system during the
  sleep and at the return; without, the system at the return only.\<close>

definition on_task_error :: "cb_env \<Rightarrow> string \<Rightarrow> pyerr \<Rightarrow> real \<Rightarrow> system \<Rightarrow> system list" where
  "on_task_error env tid e now sys =
     (case get_task (manager sys) tid of
        None \<Rightarrow> [sys]
      | Some held \<Rightarrow>
          (let s1 = in_manager (mark_error tid e now) sys
           in if can_retry held then [s1, in_manager (requeue_after_retry tid) s1]
              else
                (let s2 = run_task_callbacks env (on_task_failed_callbacks (manager s1)) tid
                            (held\<lparr>error := Some e, end_time := Some now, state := FAILED\<rparr>) s1
                 in [in_manager (notify_dependents tid) s2])))"

text \<open>The \<open>finally\<close> clause of \<open>_execute_task\<close>.\<close>

definition execute_task_finally :: "TaskManager \<Rightarrow> TaskManager" where
  "execute_task_finally m =
     bump_stat ''total_running'' (- 1)
       (m\<lparr>semaphore := (case semaphore m of None \<Rightarrow> None | Some v \<Rightarrow> Some (v + 1))\<rparr>)"

text \<open>\<open>_execute_task\<close> as a whole, for a task whose work starts at \<open>t0\<close> and settles with
  \<open>oc\<close> at \<open>t1\<close>. \<open>ExecDone\<close> lists the system at each await inside the method (while the
  work runs, while a retry sleeps) and, last, at the return.\<close>

datatype exec_result = ExecNoTask | ExecBlocked | ExecRaised pyerr | ExecDone "system list"

definition execute_task :: "cb_env \<Rightarrow> string \<Rightarrow> outcome \<Rightarrow> real \<Rightarrow> real \<Rightarrow> system \<Rightarrow> exec_result" where
  "execute_task env tid oc t0 t1 sys =
     (case execute_task_begin tid t0 sys of
        NoSuchTask \<Rightarrow> ExecNoTask
      | Blocked \<Rightarrow> ExecBlocked
      | BeginRaised e \<Rightarrow> ExecRaised e
      | Started h s1 \<Rightarrow>
          (let s2 = settle_task env h oc t1 s1;
               after = (case oc of
                          Returned v \<Rightarrow> [on_task_success env tid v t1 s2]
                        | WasCancelled \<Rightarrow> [in_manager (on_task_cancelled tid t1) s2]
                        | Raised e \<Rightarrow> on_task_error env tid e t1 s2)
           in ExecDone (s1 # butlast after @ [in_manager execute_task_finally (last after)])))"

section \<open>The scheduler loop\<close>

text \<open>\<open>sorted(TaskPriority, key=lambda p: p.value, reverse=True)\<close>.\<close>

definition priorities_high_to_low :: "TaskPriority list" where
  "priorities_high_to_low = rev (sort_key priority_value [LOW, NORMAL, HIGH, CRITICAL])"

text \<open>A run of \<open>_scheduler_loop\<close> with no other coroutine changing the manager meanwhile:
  the ids handed to \<open>_execute_task\<close> so far, the system as it stood at every await of the
  loop and of the executions it awaited, the clock, the current system, whether the loop is
  suspended for good on the semaphore, and the exception that ended the current sweep.
  \<open>work\<close> tells for a task about to start how its work settles and after how long.\<close>

record run =
  dispatched :: "string list"
  snapshots :: "system list"
  clock :: real
  current :: system
  halted :: bool
  raised :: "pyerr option"

text \<open>The body of the \<open>for priority in ...\<close> loop for one level: an id is taken from a
  non-empty queue and \<open>await self._execute_task(task_id)\<close> runs it to its return. A sweep
  that an exception has left, or that is suspended for good, does nothing at the levels
  that remain.\<close>

definition dispatch_level ::
  "cb_env \<Rightarrow> (ManagedTask \<Rightarrow> outcome \<times> real) \<Rightarrow> TaskPriority \<Rightarrow> run \<Rightarrow> run"
where
  "dispatch_level env work p r =
     (if halted r \<or> raised r \<noteq> None then r
      else
        (case priority_queues (manager (current r)) p of
           [] \<Rightarrow> r
         | tid # rest \<Rightarrow>
             (let s0 = in_manager (\<lambda>m. m\<lparr>priority_queues := (priority_queues m)(p := rest)\<rparr>) (current r);
                  r0 = r\<lparr>dispatched := dispatched r @ [tid], current := s0\<rparr>
              in case get_task (manager s0) tid of
                   None \<Rightarrow> r0
                 | Some mt \<Rightarrow>
                     (case work mt of
                        (oc, dur) \<Rightarrow>
                          (case execute_task env tid oc (clock r) (clock r + dur) s0 of
                             ExecNoTask \<Rightarrow> r0
                           | ExecBlocked \<Rightarrow> r0\<lparr>halted := True\<rparr>
                           | ExecRaised e \<Rightarrow> r0\<lparr>raised := Some e\<rparr>
                           | ExecDone snaps \<Rightarrow>
                               r0\<lparr>snapshots := snapshots r @ snaps,
                                  current := last snaps,
                                  clock := clock r + dur +
                                    (case oc of
                                       Raised _ \<Rightarrow> if can_retry mt then retry_delay (config mt) else 0
                                     | _ \<Rightarrow> 0)\<rparr>)))))"

definition drain_priorities ::
  "cb_env \<Rightarrow> (ManagedTask \<Rightarrow> outcome \<times> real) \<Rightarrow> TaskPriority list \<Rightarrow> run \<Rightarrow> run"
where
  "drain_priorities env work ps r = fold (dispatch_level env work) ps r"

text \<open>One turn of \<open>while self._running\<close>: the sweep over the levels, then
  \<open>_check_waiting_tasks\<close> and the sleep of 0.1 s; an exception in the sweep is caught and
  logged and the next turn starts at once.\<close>

definition scheduler_iteration :: "cb_env \<Rightarrow> (ManagedTask \<Rightarrow> outcome \<times> real) \<Rightarrow> run \<Rightarrow> run" where
  "scheduler_iteration env work r =
     (if halted r \<or> \<not> running (manager (current r)) then r
      else
        (let r1 = drain_priorities env work priorities_high_to_low (r\<lparr>raised := None\<rparr>)
         in if halted r1 \<or> raised r1 \<noteq> None then r1
            else
              (let s = in_manager check_waiting_tasks (current r1)
               in r1\<lparr>current := s, snapshots := snapshots r1 @ [s], clock := clock r1 + 1 / 10\<rparr>)))"

fun scheduler_loop :: "cb_env \<Rightarrow> (ManagedTask \<Rightarrow> outcome \<times> real) \<Rightarrow> nat \<Rightarrow> run \<Rightarrow> run" where
  "scheduler_loop env work 0 r = r"
| "scheduler_loop env work (Suc n) r = scheduler_loop env work n (scheduler_iteration env work r)"

definition start_run :: "real \<Rightarrow> system \<Rightarrow> run" where
  "start_run now sys =
     \<lparr> dispatched = [], snapshots = [sys], clock = now, current = sys, halted = False,
       raised = None \<rparr>"

definition running_count :: "system \<Rightarrow> nat" where
  "running_count sys = length (get_tasks_by_state (manager sys) RUNNING)"

definition peak_running :: "system list \<Rightarrow> nat" where
  "peak_running snaps = fold max (map running_count snaps) 0"

section \<open>Waiting for a task\<close>

text \<open>\<open>wait_for_task\<close> polls the task object every 0.1 s. Each turn of its loop reads
  the task and the clock; \<open>obs\<close> lists these readings, one per turn. \<open>None\<close> is a call
  that is still polling after the readings given. The ways the call ends: the value of a
  completed task, or one of its \<open>raise\<close> statements.\<close>

datatype wait_error =
    NoSuchTask_wait string
  | DeadlineTimeout
  | StoredError "pyerr option"
  | Cancellation

fun wait_loop :: "real option \<Rightarrow> real \<Rightarrow> (real \<times> ManagedTask) list \<Rightarrow> (wait_error + pyval) option" where
  "wait_loop tmo start [] = None"
| "wait_loop tmo start ((now, mt) # rest) =
     (if \<not> is_terminal_state mt then
        (if (case tmo of None \<Rightarrow> False | Some t \<Rightarrow> t \<noteq> 0 \<and> now - start > t)
         then Some (Inl DeadlineTimeout)
         else wait_loop tmo start rest)
      else if state mt = COMPLETED then Some (Inr (result mt))
      else if state mt = FAILED then Some (Inl (StoredError (error mt)))
      else Some (Inl Cancellation))"

definition wait_for_task ::
  "TaskManager \<Rightarrow> string \<Rightarrow> real option \<Rightarrow> real \<Rightarrow> (real \<times> ManagedTask) list
     \<Rightarrow> (wait_error + pyval) option"
where
  "wait_for_task m tid tmo start obs =
     (case get_task m tid of
        None \<Rightarrow> Some (Inl (NoSuchTask_wait tid))
      | Some _ \<Rightarrow> wait_loop tmo start obs)"

section \<open>Concrete systems used as examples\<close>

text \<open>A system as the constructors leave it, the same after \<open>start()\<close>, and the system
  after one more \<open>submit_task\<close> at time 0 with a given configuration.\<close>

definition fresh_system :: "int \<Rightarrow> bool \<Rightarrow> system" where
  "fresh_system max_conc enable_wd =
     \<lparr> manager = TaskManager_init max_conc enable_wd 1, watchdog = Watchdog_init, handles = [] \<rparr>"

definition started_system :: "int \<Rightarrow> bool \<Rightarrow> system" where
  "started_system max_conc enable_wd = snd (TaskManager_start (fresh_system max_conc enable_wd))"

definition submitted :: "TaskConfig \<Rightarrow> system \<Rightarrow> system" where
  "submitted cfg sys =
     (case submit_task None (Some cfg) 0 (manager sys) of
        Inl e \<Rightarrow> sys
      | Inr (tid, m) \<Rightarrow> sys\<lparr>manager := m\<rparr>)"

definition demo_task :: "string \<Rightarrow> TaskConfig \<Rightarrow> TaskState \<Rightarrow> ManagedTask" where
  "demo_task tid cfg st =
     \<lparr> task_id = tid, name = tid, config = cfg, state = st, task = None, watchdog_id = None,
       result = PyNone, error = None, retry_count = 0, create_time = 0, start_time = None,
       end_time = None, dependents = [] \<rparr>"

definition failed_dependency_manager :: TaskManager where
  "failed_dependency_manager =
     (TaskManager_init 3 False 1)
       \<lparr> tasks := [ (''a'', demo_task ''a'' default_TaskConfig COMPLETED),
                    (''b'', (demo_task ''b'' default_TaskConfig FAILED)\<lparr>error := Some (WorkError ''boom'')\<rparr>),
                    (''c'', demo_task ''c'' (default_TaskConfig\<lparr>dependencies := [''a'', ''b'']\<rparr>) WAITING) ],
         running := True, semaphore := Some 3 \<rparr>"

text \<open>A task is submitted and cancelled while queued; a second task naming it as its
  dependency is submitted afterwards.\<close>

definition cancelled_dependency_system :: system where
  "cancelled_dependency_system =
     submitted (default_TaskConfig\<lparr>dependencies := [''task_1_0'']\<rparr>)
       (snd (cancel_task ''task_1_0'' (submitted default_TaskConfig (started_system 3 False))))"

text \<open>No callback does anything; every work returns after 0.2 s.\<close>

definition no_callbacks :: cb_env where
  "no_callbacks = (\<lambda>cb arg s. s)"

definition quick_work :: "ManagedTask \<Rightarrow> outcome \<times> real" where
  "quick_work mt = (Returned (PyStr ''done''), 1 / 5)"

text \<open>One task is submitted and cancelled before the scheduler has taken it from its
  queue; then the scheduler loop makes one turn.\<close>

definition cancelled_queued_system :: system where
  "cancelled_queued_system =
     snd (cancel_task ''task_1_0'' (submitted default_TaskConfig (started_system 3 True)))"

definition cancelled_then_swept :: run where
  "cancelled_then_swept = scheduler_iteration no_callbacks quick_work (start_run 0 cancelled_queued_system)"

text \<open>Two tasks of priority \<open>HIGH\<close> and one of priority \<open>LOW\<close> are submitted, in this order,
  before the scheduler loop runs.\<close>

definition priority_mix_system :: system where
  "priority_mix_system =
     submitted (default_TaskConfig\<lparr>priority := LOW\<rparr>)
       (submitted (default_TaskConfig\<lparr>priority := HIGH\<rparr>)
          (submitted (default_TaskConfig\<lparr>priority := HIGH\<rparr>) (started_system 1 False)))"

text \<open>A task with a timeout of 0.3 s is submitted at time 0 and started by the executor.\<close>

definition slow_task_system :: system where
  "slow_task_system =
     (case execute_task_begin ''task_1_0'' 0
             (submitted (default_TaskConfig\<lparr>timeout := Some (3 / 10)\<rparr>) (started_system 3 True)) of
        Started h s \<Rightarrow> s
      | _ \<Rightarrow> fresh_system 3 True)"

section \<open>Relations between the task table before and after an operation\<close>

text \<open>\<open>keeps\<close>: the fields of a task that only \<open>_on_task_error\<close> or a new submission may
  change are the same. \<open>tasks_rel R\<close>: the two tables have the same ids and the tasks under
  each id are related by \<open>R\<close>.\<close>

definition keeps :: "ManagedTask \<Rightarrow> ManagedTask \<Rightarrow> bool" where
  "keeps t t' \<longleftrightarrow> task_id t' = task_id t \<and> config t' = config t \<and> retry_count t' = retry_count t"

definition tasks_rel :: "(string \<Rightarrow> ManagedTask \<Rightarrow> ManagedTask \<Rightarrow> bool) \<Rightarrow> TaskManager \<Rightarrow> TaskManager \<Rightarrow> bool" where
  "tasks_rel R m m' \<longleftrightarrow> (\<forall>y. rel_option (R y) (get_task m y) (get_task m' y))"

definition only_cancels :: "string \<Rightarrow> string \<Rightarrow> ManagedTask \<Rightarrow> ManagedTask \<Rightarrow> bool" where
  "only_cancels tid y t t' \<longleftrightarrow>
     keeps t t' \<and> (state t' = state t \<or> (y = tid \<and> state t' = CANCELLED))"

definition leaves_waiting :: "string \<Rightarrow> ManagedTask \<Rightarrow> ManagedTask \<Rightarrow> bool" where
  "leaves_waiting y t t' \<longleftrightarrow>
     keeps t t' \<and> (state t' = state t \<or> (state t = WAITING \<and> (state t' = QUEUED \<or> state t' = CANCELLED)))"

definition requeues :: "string \<Rightarrow> string \<Rightarrow> ManagedTask \<Rightarrow> ManagedTask \<Rightarrow> bool" where
  "requeues x y t t' \<longleftrightarrow>
     keeps t t' \<and>
     (state t' = state t \<or> (y = x \<and> state t = WAITING \<and> (state t' = QUEUED \<or> state t' = CANCELLED)))"

definition ready_waiting :: "string \<Rightarrow> TaskConfig \<Rightarrow> TaskManager \<Rightarrow> bool" where
  "ready_waiting u cfg m \<longleftrightarrow>
     (\<exists>ut. get_task m u = Some ut \<and> state ut = WAITING \<and> task_id ut = u \<and> config ut = cfg) \<and>
     (\<forall>d \<in> set (dependencies cfg). \<exists>dt. get_task m d = Some dt \<and> state dt = COMPLETED)"

definition queued_in :: "string \<Rightarrow> TaskConfig \<Rightarrow> TaskManager \<Rightarrow> bool" where
  "queued_in u cfg m \<longleftrightarrow>
     (\<exists>ut. get_task m u = Some ut \<and> state ut = QUEUED) \<and> u \<in> set (priority_queues m (priority cfg))"



text \<open>Task \<open>a\<close> has completed and has \<open>c\<close> in its dependents; \<open>c\<close> waits for \<open>a\<close> only.\<close>

definition notified_manager :: TaskManager where
  "notified_manager =
     (TaskManager_init 3 False 1)
       \<lparr> tasks := [ (''a'', (demo_task ''a'' default_TaskConfig COMPLETED)\<lparr>dependents := [''c'']\<rparr>),
                    (''c'', demo_task ''c'' (default_TaskConfig\<lparr>dependencies := [''a'']\<rparr>) WAITING) ],
         running := True, semaphore := Some 3 \<rparr>"

section \<open>Histories of the manager\<close>






definition calm :: "string \<Rightarrow> ManagedTask \<Rightarrow> ManagedTask \<Rightarrow> bool" where
  "calm y t t' \<longleftrightarrow> keeps t t' \<and> (state t' = FAILED \<longrightarrow> state t = FAILED)"





section \<open>Basic facts about the task table\<close>

lemma get_task_modify_task:
  "get_task (modify_task k f m) tid =
     (if tid = k then map_option f (get_task m k) else get_task m tid)"
  by (auto simp: get_task_def modify_task_def map_of_map_entry split: option.splits)

lemma get_task_bump_stat [simp]: "get_task (bump_stat k d m) tid = get_task m tid"
  by (simp add: get_task_def bump_stat_def)

lemma get_task_enqueue_task [simp]: "get_task (enqueue_task t m) tid = get_task m tid"
  by (simp add: get_task_def enqueue_task_def Let_def)

lemma stats_modify_task [simp]: "stats (modify_task k f m) = stats m"
  by (simp add: modify_task_def)

lemma stats_bump_stat: "stats (bump_stat k d m) k' = (if k' = k then stats m k + d else stats m k')"
  by (simp add: bump_stat_def)

lemma get_task_add_dependent:
  "get_task m x = Some t \<Longrightarrow>
   \<exists>t'. get_task (modify_task p (\<lambda>d. d\<lparr>dependents := List.insert tid (dependents d)\<rparr>) m) x = Some t'
        \<and> state t' = state t"
  by (cases "x = p") (auto simp: get_task_modify_task)

lemma get_task_update:
  "get_task (m\<lparr>tasks := AList.update k v (tasks m)\<rparr>) x = (if x = k then Some v else get_task m x)"
  by (simp add: get_task_def update_conv')

section \<open>The dependency check\<close>

lemma check_loop_failed:
  "\<lbrakk> \<forall>p \<in> set pre. \<exists>dp. get_task m p = Some dp \<and> state dp = COMPLETED;
     get_task m d = Some dt; state dt = FAILED; get_task m tid = Some t \<rbrakk>
   \<Longrightarrow> \<exists>m' t'. check_dependencies_loop tid True (pre @ d # post) m = (False, m')
        \<and> get_task m' tid = Some t' \<and> state t' = CANCELLED \<and> error t' = Some (DependencyFailed d)
        \<and> stats m' ''total_cancelled'' = stats m ''total_cancelled'' + 1"
proof (induction pre arbitrary: m dt t)
  case Nil
  then show ?case
    by (auto simp: get_task_modify_task Let_def stats_bump_stat)
next
  case (Cons p pre)
  from Cons.prems obtain dp where dp: "get_task m p = Some dp" "state dp = COMPLETED" by auto
  let ?m1 = "modify_task p (\<lambda>d. d\<lparr>dependents := List.insert tid (dependents d)\<rparr>) m"
  have a: "\<forall>q \<in> set pre. \<exists>dq. get_task ?m1 q = Some dq \<and> state dq = COMPLETED"
  proof
    fix q assume "q \<in> set pre"
    then obtain dq where "get_task m q = Some dq" "state dq = COMPLETED"
      using Cons.prems(1) by auto
    then show "\<exists>dq. get_task ?m1 q = Some dq \<and> state dq = COMPLETED"
      using get_task_add_dependent[of m q dq p tid] by auto
  qed
  obtain dt1 where b: "get_task ?m1 d = Some dt1" "state dt1 = FAILED"
    using get_task_add_dependent[OF Cons.prems(2), of p tid] Cons.prems(3) by auto
  obtain t1 where c: "get_task ?m1 tid = Some t1"
    using get_task_add_dependent[OF Cons.prems(4), of p tid] by auto
  have st: "stats ?m1 = stats m" by simp
  from Cons.IH[OF a b c] st dp show ?case by (auto simp: Let_def)
qed

lemma check_loop_keeps_tasks:
  "get_task m x = Some t \<Longrightarrow>
   \<exists>t'. get_task (snd (check_dependencies_loop tid flag deps m)) x = Some t'"
proof (induction deps arbitrary: m t)
  case Nil then show ?case by simp
next
  case (Cons d deps)
  show ?case
  proof (cases "get_task m d")
    case None then show ?thesis using Cons.prems by simp
  next
    case (Some dep)
    let ?m1 = "modify_task d (\<lambda>x. x\<lparr>dependents := List.insert tid (dependents x)\<rparr>) m"
    obtain t1 where t1: "get_task ?m1 x = Some t1"
      using get_task_add_dependent[OF Cons.prems, of d tid] by auto
    show ?thesis
    proof (cases "state dep = COMPLETED")
      case True
      then show ?thesis using Some Cons.IH[OF t1] by (simp add: Let_def)
    next
      case False
      then show ?thesis using Some t1
        by (cases "x = tid") (auto simp: Let_def get_task_modify_task)
    qed
  qed
qed

lemma check_loop_unknown:
  "d \<in> set deps \<Longrightarrow> get_task m d = None \<Longrightarrow> \<not> fst (check_dependencies_loop tid flag deps m)"
proof (induction deps arbitrary: m)
  case Nil then show ?case by simp
next
  case (Cons x deps)
  show ?case
  proof (cases "get_task m x")
    case None then show ?thesis by simp
  next
    case (Some dep)
    then have xd: "x \<noteq> d" using Cons.prems(2) by auto
    let ?m1 = "modify_task x (\<lambda>y. y\<lparr>dependents := List.insert tid (dependents y)\<rparr>) m"
    have "get_task ?m1 d = None" using Cons.prems(2) xd by (simp add: get_task_modify_task)
    moreover have "d \<in> set deps" using Cons.prems(1) xd by auto
    ultimately have "\<not> fst (check_dependencies_loop tid flag deps ?m1)" by (rule Cons.IH[rotated])
    then show ?thesis using Some by (simp add: Let_def)
  qed
qed

text \<open>Claim C3, as stated, fails: a dependency in state \<open>CANCELLED\<close> does not cancel the
  waiting task. Task \<open>task_1_0\<close> was cancelled while queued; \<open>task_2_0\<close> names it as its only
  dependency, has \<open>cancel_on_dependency_failure\<close> set and is \<open>WAITING\<close>; after its dependency
  check it is still \<open>WAITING\<close>.\<close>

theorem cancelled_dependency_leaves_waiting:
  "map_option state (get_task (manager cancelled_dependency_system) ''task_1_0'') = Some CANCELLED \<and>
   map_option state (get_task (manager cancelled_dependency_system) ''task_2_0'') = Some WAITING \<and>
   map_option (dependencies \<circ> config) (get_task (manager cancelled_dependency_system) ''task_2_0'')
     = Some [''task_1_0''] \<and>
   map_option (cancel_on_dependency_failure \<circ> config)
     (get_task (manager cancelled_dependency_system) ''task_2_0'') = Some True \<and>
   map_option state
     (get_task (snd (check_dependencies ''task_2_0'' (manager cancelled_dependency_system))) ''task_2_0'')
     = Some WAITING"
  by code_simp

text \<open>Claim C3, amended: for a task \<open>tid\<close> in \<open>WAITING\<close> with
  \<open>cancel_on_dependency_failure\<close>, when the dependency check reaches a declared dependency
  \<open>d\<close> in state \<open>FAILED\<close> (every dependency listed before it exists and is \<open>COMPLETED\<close>), the
  check fails and the task is \<open>CANCELLED\<close> with the error naming \<open>d\<close>, and the cancelled
  counter goes up by one.\<close>

theorem dependency_failed_cancels:
  assumes "get_task m tid = Some t" and "state t = WAITING"
    and "cancel_on_dependency_failure (config t)"
    and "dependencies (config t) = pre @ d # post"
    and "\<forall>p \<in> set pre. \<exists>dp. get_task m p = Some dp \<and> state dp = COMPLETED"
    and "get_task m d = Some dt" and "state dt = FAILED"
  shows "\<exists>m' t'. check_dependencies tid m = (False, m') \<and> get_task m' tid = Some t' \<and>
           state t' = CANCELLED \<and> error t' = Some (DependencyFailed d) \<and>
           stats m' ''total_cancelled'' = stats m ''total_cancelled'' + 1"
  using check_loop_failed[OF assms(5,6,7,1), of post] assms(1,3,4)
  by (simp add: check_dependencies_def)

text \<open>Witness for C3: task \<open>c\<close> waits for \<open>a\<close> (completed) and \<open>b\<close> (failed).\<close>

theorem dependency_failed_cancels_witness:
  "get_task failed_dependency_manager ''c''
     = Some (demo_task ''c'' (default_TaskConfig\<lparr>dependencies := [''a'', ''b'']\<rparr>) WAITING) \<and>
   (\<exists>m' t'. check_dependencies ''c'' failed_dependency_manager = (False, m') \<and>
      get_task m' ''c'' = Some t' \<and> state t' = CANCELLED \<and> error t' = Some (DependencyFailed ''b'') \<and>
      stats m' ''total_cancelled'' = stats failed_dependency_manager ''total_cancelled'' + 1)"
proof -
  let ?t = "demo_task ''c'' (default_TaskConfig\<lparr>dependencies := [''a'', ''b'']\<rparr>) WAITING"
  have 1: "get_task failed_dependency_manager ''c'' = Some ?t"
    by (simp add: failed_dependency_manager_def get_task_def)
  have 2: "state ?t = WAITING" by (simp add: demo_task_def)
  have 3: "cancel_on_dependency_failure (config ?t)" by (simp add: demo_task_def default_TaskConfig_def)
  have 4: "dependencies (config ?t) = [''a''] @ ''b'' # []" by (simp add: demo_task_def)
  have 5: "\<forall>p \<in> set [''a'']. \<exists>dp. get_task failed_dependency_manager p = Some dp \<and> state dp = COMPLETED"
    by (simp add: failed_dependency_manager_def get_task_def demo_task_def)
  have 6: "get_task failed_dependency_manager ''b''
             = Some ((demo_task ''b'' default_TaskConfig FAILED)\<lparr>error := Some (WorkError ''boom'')\<rparr>)"
    by (simp add: failed_dependency_manager_def get_task_def)
  have 7: "state ((demo_task ''b'' default_TaskConfig FAILED)\<lparr>error := Some (WorkError ''boom'')\<rparr>) = FAILED"
    by (simp add: demo_task_def)
  show ?thesis using 1 dependency_failed_cancels[OF 1 2 3 4 5 6 7] by simp
qed

section \<open>Submission errors\<close>

text \<open>Claim C9, as stated, fails: on a running manager, a submission naming a dependency
  id that is not in the task table is accepted.\<close>

theorem submit_unknown_dependency_accepted:
  "running (manager (started_system 3 False)) \<and>
   get_task (manager (started_system 3 False)) ''no_such_task'' = None \<and>
   \<not> isl (submit_task None (Some (default_TaskConfig\<lparr>dependencies := [''no_such_task'']\<rparr>)) 0
            (manager (started_system 3 False)))"
  by code_simp

text \<open>Claim C9, amended: \<open>submit_task\<close> fails in exactly one situation, when the manager is
  not running, and the error is then the \<open>RuntimeError\<close>. A submission on a running manager
  that names a dependency id not in the task table returns the new id, and the new task is
  stored in state \<open>WAITING\<close>.\<close>

theorem submit_task_errors:
  "(submit_task nm cfg now m = Inl e \<longleftrightarrow> \<not> running m \<and> e = ManagerNotRunning) \<and>
   (running m \<and> cfg = Some c \<and> d \<in> set (dependencies c) \<and> get_task m d = None \<and>
    d \<noteq> new_task_id (task_counter m + 1) now \<longrightarrow>
      (\<exists>m' t. submit_task nm cfg now m = Inr (new_task_id (task_counter m + 1) now, m') \<and>
              get_task m' (new_task_id (task_counter m + 1) now) = Some t \<and> state t = WAITING))"
proof (intro conjI impI)
  show "submit_task nm cfg now m = Inl e \<longleftrightarrow> \<not> running m \<and> e = ManagerNotRunning"
    by (auto simp: submit_task_def Let_def split: prod.splits bool.splits)
next
  assume a: "running m \<and> cfg = Some c \<and> d \<in> set (dependencies c) \<and> get_task m d = None \<and>
    d \<noteq> new_task_id (task_counter m + 1) now"
  define tid where "tid = new_task_id (Suc (task_counter m)) now"
  define nm' where "nm' = (case nm of None \<Rightarrow> ''Task-'' @ string_of_nat (Suc (task_counter m))
                   | Some n \<Rightarrow> if n = [] then ''Task-'' @ string_of_nat (Suc (task_counter m)) else n)"
  define mt where "mt = \<lparr> task_id = tid, name = nm', config = c, state = QUEUED,
                 task = None, watchdog_id = None, result = PyNone, error = None,
                 retry_count = 0, create_time = now, start_time = None, end_time = None,
                 dependents = [] \<rparr>"
  define m1 where "m1 = bump_stat ''total_submitted'' 1
                    (m\<lparr>task_counter := Suc (task_counter m),
                       tasks := AList.update tid mt (tasks m)\<rparr>)"
  have g1: "get_task m1 tid = Some mt" and g2: "get_task m1 d = None"
    using a by (auto simp: m1_def get_task_def bump_stat_def update_conv' tid_def)
  have chk: "check_dependencies tid m1 = check_dependencies_loop tid (cancel_on_dependency_failure c) (dependencies c) m1"
    using g1 by (simp add: check_dependencies_def mt_def)
  obtain b m2 where r: "check_dependencies tid m1 = (b, m2)" by (cases "check_dependencies tid m1")
  have "\<not> fst (check_dependencies_loop tid (cancel_on_dependency_failure c) (dependencies c) m1)"
    using check_loop_unknown a g2 by blast
  then have nb: "\<not> b" using r chk by simp
  obtain t2 where t2: "get_task m2 tid = Some t2"
    using check_loop_keeps_tasks[OF g1, of tid "cancel_on_dependency_failure c" "dependencies c"] r chk by auto
  have ne: "dependencies c \<noteq> []" using a by auto
  have "submit_task nm cfg now m = Inr (tid, modify_task tid (\<lambda>t. t\<lparr>state := WAITING\<rparr>) m2)"
    using a r nb ne
    by (simp add: submit_task_def Let_def tid_def nm'_def mt_def m1_def)
  then show "\<exists>m' t. submit_task nm cfg now m = Inr (new_task_id (task_counter m + 1) now, m') \<and>
              get_task m' (new_task_id (task_counter m + 1) now) = Some t \<and> state t = WAITING"
    using t2 by (auto simp: tid_def get_task_modify_task)
qed

text \<open>Witness for C9: the running manager with no task and the dependency \<open>no_such_task\<close>.\<close>

theorem submit_task_errors_witness:
  "running (manager (started_system 3 False)) \<and>
   ''no_such_task'' \<in> set (dependencies (default_TaskConfig\<lparr>dependencies := [''no_such_task'']\<rparr>)) \<and>
   get_task (manager (started_system 3 False)) ''no_such_task'' = None \<and>
   ''no_such_task'' \<noteq> new_task_id (task_counter (manager (started_system 3 False)) + 1) 0 \<and>
   (\<exists>m' t. submit_task None (Some (default_TaskConfig\<lparr>dependencies := [''no_such_task'']\<rparr>)) 0
              (manager (started_system 3 False))
            = Inr (new_task_id (task_counter (manager (started_system 3 False)) + 1) 0, m') \<and>
           get_task m' (new_task_id (task_counter (manager (started_system 3 False)) + 1) 0) = Some t \<and>
           state t = WAITING)"
proof -
  have h: "running (manager (started_system 3 False)) \<and>
     Some (default_TaskConfig\<lparr>dependencies := [''no_such_task'']\<rparr>) = Some (default_TaskConfig\<lparr>dependencies := [''no_such_task'']\<rparr>) \<and>
     ''no_such_task'' \<in> set (dependencies (default_TaskConfig\<lparr>dependencies := [''no_such_task'']\<rparr>)) \<and>
     get_task (manager (started_system 3 False)) ''no_such_task'' = None \<and>
     ''no_such_task'' \<noteq> new_task_id (task_counter (manager (started_system 3 False)) + 1) 0"
    by code_simp
  show ?thesis
    using h submit_task_errors[of None "Some (default_TaskConfig\<lparr>dependencies := [''no_such_task'']\<rparr>)" 0
        "manager (started_system 3 False)" ManagerNotRunning "default_TaskConfig\<lparr>dependencies := [''no_such_task'']\<rparr>" "''no_such_task''"]
    by blast
qed

section \<open>Waiting with a zero timeout\<close>

lemma wait_loop_zero_no_deadline:
  "wait_loop (Some 0) start obs \<noteq> Some (Inl DeadlineTimeout)"
  by (induction obs) (auto split: if_splits)

lemma wait_loop_zero_pending:
  "wait_loop (Some 0) start obs = None \<longleftrightarrow> (\<forall>ob \<in> set obs. \<not> is_terminal_state (snd ob))"
  by (induction obs) (auto split: if_splits)

text \<open>Claim C10: \<open>wait_for_task\<close> with \<open>timeout = 0\<close> never raises the deadline error, and
  for a task that exists it is still polling after any number of turns exactly when none of
  the readings of the task was terminal, whatever the clock said.\<close>

theorem wait_zero_timeout_polls:
  "wait_for_task m tid (Some 0) start obs \<noteq> Some (Inl DeadlineTimeout) \<and>
   (get_task m tid \<noteq> None \<longrightarrow>
      (wait_for_task m tid (Some 0) start obs = None
         \<longleftrightarrow> (\<forall>ob \<in> set obs. \<not> is_terminal_state (snd ob))))"
  using wait_loop_zero_no_deadline[of start obs] wait_loop_zero_pending[of start obs]
  by (auto simp: wait_for_task_def split: option.splits)

text \<open>Witness for C10: two readings, 1000 s and 2000 s after the start, of a task that is
  not terminal: with timeout 0 the call is still polling, with timeout 1 it has raised.\<close>

theorem wait_zero_timeout_polls_witness:
  "get_task failed_dependency_manager ''c'' \<noteq> None \<and>
   wait_for_task failed_dependency_manager ''c'' (Some 0) 0
       [(1000, demo_task ''c'' default_TaskConfig WAITING),
        (2000, demo_task ''c'' default_TaskConfig RUNNING)] = None \<and>
   wait_for_task failed_dependency_manager ''c'' (Some 1) 0
       [(1000, demo_task ''c'' default_TaskConfig WAITING),
        (2000, demo_task ''c'' default_TaskConfig RUNNING)] = Some (Inl DeadlineTimeout)"
proof -
  have g: "get_task failed_dependency_manager ''c'' \<noteq> None"
    by (simp add: failed_dependency_manager_def get_task_def)
  have nt: "\<forall>ob \<in> set [(1000::real, demo_task ''c'' default_TaskConfig WAITING),
        (2000, demo_task ''c'' default_TaskConfig RUNNING)]. \<not> is_terminal_state (snd ob)"
    by (simp add: is_terminal_state_def demo_task_def)
  have d: "wait_for_task failed_dependency_manager ''c'' (Some 1) 0
       [(1000, demo_task ''c'' default_TaskConfig WAITING),
        (2000, demo_task ''c'' default_TaskConfig RUNNING)] = Some (Inl DeadlineTimeout)"
    using g by (auto simp: wait_for_task_def is_terminal_state_def demo_task_def)
  show ?thesis
    using g nt d wait_zero_timeout_polls[of failed_dependency_manager "''c''" 0
        "[(1000, demo_task ''c'' default_TaskConfig WAITING), (2000, demo_task ''c'' default_TaskConfig RUNNING)]"]
    by blast
qed


section \<open>Evaluating runs\<close>

lemmas run_defs = scheduler_iteration_def drain_priorities_def priorities_high_to_low_def
  dispatch_level_def execute_task_def execute_task_begin_def
  settle_task_def on_task_success_def mark_success_def execute_task_finally_def
  run_task_callbacks_def notify_dependents_def check_waiting_tasks_def reevaluate_waiting_def
  in_manager_def start_run_def
  submitted_def started_system_def fresh_system_def
  TaskManager_init_def Watchdog_init_def TaskManager_start_def Watchdog_start_def
  submit_task_def new_task_id_def string_of_nat.simps string_of_int_def py_int_def
  default_TaskConfig_def bump_stat_def modify_task_def enqueue_task_def get_task_def
  no_callbacks_def quick_work_def Let_def

section \<open>A cancelled task that is still queued\<close>

text \<open>Claim C2 fails on the code: \<open>cancel_task\<close> on a queued task sets it to \<open>CANCELLED\<close> and
  leaves its id in the queue, and \<open>_execute_task\<close> sets whatever it is handed to \<open>RUNNING\<close>.
  Here the task is \<open>CANCELLED\<close> with its id still queued; the executor started on that id
  makes it \<open>RUNNING\<close>; and one turn of the scheduler loop takes that id from the queue and
  shows the task \<open>CANCELLED\<close>, then \<open>RUNNING\<close>, then \<open>COMPLETED\<close>.\<close>

theorem cancelled_task_runs:
  "map_option state (get_task (manager cancelled_queued_system) ''task_1_0'') = Some CANCELLED \<and>
   priority_queues (manager cancelled_queued_system) NORMAL = [''task_1_0''] \<and>
   (case execute_task_begin ''task_1_0'' 0 cancelled_queued_system of
      Started h s \<Rightarrow> map_option state (get_task (manager s) ''task_1_0'')
    | _ \<Rightarrow> None) = Some RUNNING \<and>
   dispatched cancelled_then_swept = [''task_1_0''] \<and>
   map (\<lambda>s. map_option state (get_task (manager s) ''task_1_0'')) (snapshots cancelled_then_swept)
     = [Some CANCELLED, Some RUNNING, Some COMPLETED, Some COMPLETED]"
  by code_simp

text \<open>Claim C8 fails on the code, by the same defect: after that turn the only task
  submitted is counted as cancelled and as completed, so with no task in a non-terminal
  state the three terminal counters add up to 2 and \<open>total_submitted\<close> is 1.\<close>

theorem cancelled_task_counted_twice:
  "map (\<lambda>(k, t). (k, state t)) (tasks (manager (current cancelled_then_swept))) = [(''task_1_0'', COMPLETED)] \<and>
   get_stats (manager (current cancelled_then_swept)) =
     [ (''total_submitted'', 1), (''total_completed'', 1), (''total_failed'', 0),
       (''total_cancelled'', 1), (''total_retries'', 0), (''current_running'', 0),
       (''current_queued'', 0), (''current_waiting'', 0), (''max_concurrent'', 3) ]"
  by code_simp

section \<open>Dispatch order\<close>

text \<open>Claim C6 fails on the code: a sweep takes one id from each non-empty queue, so with
  \<open>task_1_0\<close> and \<open>task_2_0\<close> queued at \<open>HIGH\<close> and \<open>task_3_0\<close> at \<open>LOW\<close>, the ids are handed to
  the executor in the order \<open>task_1_0\<close>, \<open>task_3_0\<close>, \<open>task_2_0\<close>: the task of priority \<open>LOW\<close>
  before the second of priority \<open>HIGH\<close>.\<close>

theorem low_dispatched_before_high:
  "priority_queues (manager priority_mix_system) HIGH = [''task_1_0'', ''task_2_0''] \<and>
   priority_queues (manager priority_mix_system) LOW = [''task_3_0''] \<and>
   dispatched (scheduler_loop no_callbacks quick_work (Suc (Suc 0)) (start_run 0 priority_mix_system))
     = [''task_1_0'', ''task_3_0'', ''task_2_0'']"
  by (simp add: priority_mix_system_def run_defs)

section \<open>Watchdog timeout\<close>

lemma start_keeps_timeout_callbacks:
  "on_timeout_callbacks (watchdog (snd (TaskManager_start sys))) = on_timeout_callbacks (watchdog sys)"
  by (simp add: TaskManager_start_def Watchdog_start_def Let_def)

text \<open>Claim C4 fails on the code in its second half. The watchdog does what the claim
  says: the entry of the task that has run 0.5 s against a timeout of 0.3 s gets status
  \<open>TIMEOUT\<close>, the counter is 1, and the task object is neither cancelled nor settled. But
  \<open>start\<close> registers no timeout callback (the set is empty after it), so nothing cancels
  the work and the managed task stays \<open>RUNNING\<close>.\<close>

theorem timeout_reported_not_cancelled:
  "on_timeout_callbacks (watchdog (started_system 3 True)) = [] \<and>
   map_option state (get_task (manager slow_task_system) ''task_1_0'') = Some RUNNING \<and>
   map_option task (get_task (manager slow_task_system) ''task_1_0'') = Some (Some 0) \<and>
   map_option watchdog_id (get_task (manager slow_task_system) ''task_1_0'') = Some (Some ''task_1_0'') \<and>
   map_option info_timeout (wd_get_task_info (watchdog slow_task_system) ''task_1_0'') = Some (Some (3 / 10)) \<and>
   map fst (tasks_to_handle (1 / 2) slow_task_system) = [''task_1_0''] \<and>
   map_option status
     (wd_get_task_info (watchdog (check_tasks no_callbacks (1 / 2) slow_task_system)) ''task_1_0'')
     = Some ST_TIMEOUT \<and>
   wd_stats (watchdog (check_tasks no_callbacks (1 / 2) slow_task_system)) ''total_timeout'' = 1 \<and>
   map cancel_requested (handles (check_tasks no_callbacks (1 / 2) slow_task_system)) = [False] \<and>
   map settled (handles (check_tasks no_callbacks (1 / 2) slow_task_system)) = [None] \<and>
   map_option state
     (get_task (manager (check_tasks no_callbacks (1 / 2) slow_task_system)) ''task_1_0'')
     = Some RUNNING"
  by code_simp

section \<open>What the dependency check and the notification change\<close>

lemma keeps_refl [simp]: "keeps t t" by (simp add: keeps_def)

lemma keeps_trans: "keeps a b \<Longrightarrow> keeps b c \<Longrightarrow> keeps a c" by (simp add: keeps_def)

lemma tasks_rel_same: "tasks m' = tasks m \<Longrightarrow> (\<And>y t. R y t t) \<Longrightarrow> tasks_rel R m m'"
  by (simp add: tasks_rel_def get_task_def option.rel_refl)

lemma tasks_rel_refl: "(\<And>y t. R y t t) \<Longrightarrow> tasks_rel R m m"
  by (rule tasks_rel_same) simp_all

lemma tasks_rel_trans:
  assumes "tasks_rel R m m'" and "tasks_rel R m' m''"
    and "\<And>y a b c. R y a b \<Longrightarrow> R y b c \<Longrightarrow> R y a c"
  shows "tasks_rel R m m''"
  unfolding tasks_rel_def
proof
  fix y
  from assms(1,2) have "rel_option (R y) (get_task m y) (get_task m' y)"
    "rel_option (R y) (get_task m' y) (get_task m'' y)" by (simp_all add: tasks_rel_def)
  then show "rel_option (R y) (get_task m y) (get_task m'' y)"
    using assms(3) by (cases "get_task m y"; cases "get_task m' y"; cases "get_task m'' y") auto
qed


lemma tasks_rel_modify:
  assumes "\<And>t. R k t (f t)" and "\<And>y t. R y t t"
  shows "tasks_rel R m (modify_task k f m)"
  unfolding tasks_rel_def
proof
  fix y
  show "rel_option (R y) (get_task m y) (get_task (modify_task k f m) y)"
    using assms by (cases "get_task m y") (auto simp: get_task_modify_task)
qed


lemma tasks_rel_SomeI:
  "tasks_rel R m m' \<Longrightarrow> get_task m y = Some t \<Longrightarrow> \<exists>t'. get_task m' y = Some t' \<and> R y t t'"
  unfolding tasks_rel_def by (metis option.rel_cases option.distinct(1) option.inject)


lemma tasks_bump_stat [simp]: "tasks (bump_stat k d m) = tasks m" by (simp add: bump_stat_def)
lemma tasks_enqueue_task [simp]: "tasks (enqueue_task t m) = tasks m" by (simp add: enqueue_task_def Let_def)
lemma queues_modify_task [simp]: "priority_queues (modify_task k f m) = priority_queues m" by (simp add: modify_task_def)
lemma queues_bump_stat [simp]: "priority_queues (bump_stat k d m) = priority_queues m" by (simp add: bump_stat_def)

lemma only_cancels_trans: "only_cancels tid y a b \<Longrightarrow> only_cancels tid y b c \<Longrightarrow> only_cancels tid y a c"
  by (auto simp: only_cancels_def keeps_def)


lemma check_loop_frame:
  "tasks_rel (only_cancels tid) m (snd (check_dependencies_loop tid flag deps m)) \<and>
   priority_queues (snd (check_dependencies_loop tid flag deps m)) = priority_queues m"
proof (induction deps arbitrary: m)
  case Nil show ?case by (simp add: tasks_rel_refl only_cancels_def)
next
  case (Cons d deps)
  show ?case
  proof (cases "get_task m d")
    case None then show ?thesis by (simp add: tasks_rel_refl only_cancels_def)
  next
    case (Some dep)
    let ?m1 = "modify_task d (\<lambda>x. x\<lparr>dependents := List.insert tid (dependents x)\<rparr>) m"
    have r1: "tasks_rel (only_cancels tid) m ?m1"
      by (rule tasks_rel_modify) (simp_all add: only_cancels_def keeps_def)
    show ?thesis
    proof (cases "state dep = COMPLETED")
      case True
      have "tasks_rel (only_cancels tid) m (snd (check_dependencies_loop tid flag deps ?m1))"
        using tasks_rel_trans[OF r1 conjunct1[OF Cons.IH[of ?m1]]] only_cancels_trans by blast
      then show ?thesis using Some True Cons.IH[of ?m1] by (simp add: Let_def)
    next
      case False
      let ?m2 = "bump_stat ''total_cancelled'' 1
                      (modify_task tid
                         (\<lambda>t. t\<lparr>state := CANCELLED, error := Some (DependencyFailed d)\<rparr>) ?m1)"
      have "tasks_rel (only_cancels tid) ?m1 (modify_task tid
                         (\<lambda>t. t\<lparr>state := CANCELLED, error := Some (DependencyFailed d)\<rparr>) ?m1)"
        by (rule tasks_rel_modify) (simp_all add: only_cancels_def keeps_def)
      then have "tasks_rel (only_cancels tid) ?m1 ?m2"
        by (simp add: tasks_rel_def)
      then have r2: "tasks_rel (only_cancels tid) m ?m2"
        using tasks_rel_trans[OF r1] only_cancels_trans by blast
      show ?thesis using Some False r1 r2 by (simp add: Let_def)
    qed
  qed
qed

lemma check_dependencies_frame:
  "tasks_rel (only_cancels tid) m (snd (check_dependencies tid m)) \<and>
   priority_queues (snd (check_dependencies tid m)) = priority_queues m"
  using check_loop_frame
  by (auto simp: check_dependencies_def tasks_rel_refl only_cancels_def split: option.splits)

lemma queues_enqueue_task:
  "priority_queues (enqueue_task t m) p =
     (if p = priority (config t) then priority_queues m p @ [task_id t] else priority_queues m p)"
  by (simp add: enqueue_task_def Let_def)

lemma check_dependencies_tid_state:
  assumes "check_dependencies tid m = (True, m')" and "get_task m tid = Some t"
  shows "\<exists>t'. get_task m' tid = Some t' \<and> keeps t t'"
  using tasks_rel_SomeI[OF conjunct1[OF check_dependencies_frame[of tid m]] assms(2)] assms(1)
  by (auto simp: only_cancels_def)

lemma reevaluate_waiting_frame:
  "tasks_rel (requeues x) m (reevaluate_waiting x m)"
proof (cases "get_task m x")
  case None
  then show ?thesis by (simp add: reevaluate_waiting_def tasks_rel_refl requeues_def)
next
  case (Some t)
  show ?thesis
  proof (cases "state t = WAITING")
    case False
    then show ?thesis using Some by (simp add: reevaluate_waiting_def tasks_rel_refl requeues_def)
  next
    case True
    obtain b m1 where c: "check_dependencies x m = (b, m1)" by (cases "check_dependencies x m")
    have f: "tasks_rel (only_cancels x) m m1" using check_dependencies_frame[of x m] c by simp
    have w: "tasks_rel (requeues x) m m1"
      unfolding tasks_rel_def
    proof
      fix y
      show "rel_option (requeues x y) (get_task m y) (get_task m1 y)"
      proof (cases "get_task m y")
        case None
        then show ?thesis using f by (auto simp: tasks_rel_def dest: spec[of _ y])
      next
        case (Some ty)
        then obtain ty' where ty': "get_task m1 y = Some ty'" "only_cancels x y ty ty'"
          using tasks_rel_SomeI[OF f] by blast
        have "requeues x y ty ty'"
          using ty'(2) Some \<open>get_task m x = Some t\<close> True
          by (auto simp: only_cancels_def requeues_def)
        then show ?thesis using Some ty'(1) by simp
      qed
    qed
    show ?thesis
    proof (cases b)
      case False
      then show ?thesis using Some True c w by (simp add: reevaluate_waiting_def)
    next
      case b: True
      obtain t1 where t1: "get_task m1 x = Some t1" "only_cancels x x t t1"
        using tasks_rel_SomeI[OF f Some] by blast
      have "tasks_rel (requeues x) m (modify_task x (\<lambda>u. u\<lparr>state := QUEUED\<rparr>) m1)"
        unfolding tasks_rel_def
      proof
        fix y
        show "rel_option (requeues x y) (get_task m y) (get_task (modify_task x (\<lambda>u. u\<lparr>state := QUEUED\<rparr>) m1) y)"
        proof (cases "y = x")
          case True
          then show ?thesis using Some t1 \<open>state t = WAITING\<close>
            by (auto simp: get_task_modify_task requeues_def only_cancels_def keeps_def)
        next
          case False
          then show ?thesis using w by (simp add: get_task_modify_task tasks_rel_def)
        qed
      qed
      then have "tasks_rel (requeues x) m (enqueue_task t (modify_task x (\<lambda>u. u\<lparr>state := QUEUED\<rparr>) m1))"
        by (simp add: tasks_rel_def)
      then show ?thesis using Some True c b by (simp add: reevaluate_waiting_def)
    qed
  qed
qed


lemma leaves_waiting_refl [simp]: "leaves_waiting y t t"
  by (simp add: leaves_waiting_def)





lemma reevaluate_waiting_queues:
  "\<exists>ys. priority_queues (reevaluate_waiting x m) p = priority_queues m p @ ys"
  using check_dependencies_frame[of x m]
  by (auto simp: reevaluate_waiting_def queues_enqueue_task split: option.splits prod.splits bool.splits)

section \<open>Notification of dependents\<close>

lemma check_loop_all_completed:
  "\<forall>d \<in> set deps. \<exists>dt. get_task m d = Some dt \<and> state dt = COMPLETED \<Longrightarrow>
   fst (check_dependencies_loop tid flag deps m)"
proof (induction deps arbitrary: m)
  case Nil show ?case by simp
next
  case (Cons d deps)
  then obtain dt where dt: "get_task m d = Some dt" "state dt = COMPLETED" by auto
  let ?m1 = "modify_task d (\<lambda>x. x\<lparr>dependents := List.insert tid (dependents x)\<rparr>) m"
  have "\<forall>q \<in> set deps. \<exists>dq. get_task ?m1 q = Some dq \<and> state dq = COMPLETED"
  proof
    fix q assume "q \<in> set deps"
    then obtain dq where "get_task m q = Some dq" "state dq = COMPLETED" using Cons.prems by auto
    then show "\<exists>dq. get_task ?m1 q = Some dq \<and> state dq = COMPLETED"
      using get_task_add_dependent[of m q dq d tid] by auto
  qed
  then have "fst (check_dependencies_loop tid flag deps ?m1)" by (rule Cons.IH)
  then show ?case using dt by (simp add: Let_def)
qed

lemma reevaluate_ready:
  assumes "ready_waiting u cfg m"
  shows "queued_in u cfg (reevaluate_waiting u m)"
proof -
  from assms obtain ut where ut: "get_task m u = Some ut" "state ut = WAITING" "task_id ut = u" "config ut = cfg"
    and deps: "\<forall>d \<in> set (dependencies cfg). \<exists>dt. get_task m d = Some dt \<and> state dt = COMPLETED"
    by (auto simp: ready_waiting_def)
  obtain b m1 where c: "check_dependencies u m = (b, m1)" by (cases "check_dependencies u m")
  have "b" using check_loop_all_completed[OF deps, of u "cancel_on_dependency_failure cfg"] c ut
    by (simp add: check_dependencies_def)
  obtain t1 where t1: "get_task m1 u = Some t1"
    using tasks_rel_SomeI[OF conjunct1[OF check_dependencies_frame[of u m]] ut(1)] c by auto
  have r: "reevaluate_waiting u m = enqueue_task ut (modify_task u (\<lambda>x. x\<lparr>state := QUEUED\<rparr>) m1)"
    using ut c \<open>b\<close> by (simp add: reevaluate_waiting_def)
  show ?thesis
    unfolding r queued_in_def using t1 ut
    by (simp add: get_task_modify_task queues_enqueue_task)
qed

lemma reevaluate_keeps_ready:
  assumes "ready_waiting u cfg m" and "x \<noteq> u"
  shows "ready_waiting u cfg (reevaluate_waiting x m)"
proof -
  have f: "tasks_rel (requeues x) m (reevaluate_waiting x m)" by (rule reevaluate_waiting_frame)
  from assms obtain ut where ut: "get_task m u = Some ut" "state ut = WAITING" "task_id ut = u" "config ut = cfg"
    and deps: "\<forall>d \<in> set (dependencies cfg). \<exists>dt. get_task m d = Some dt \<and> state dt = COMPLETED"
    by (auto simp: ready_waiting_def)
  obtain ut' where "get_task (reevaluate_waiting x m) u = Some ut'" "requeues x u ut ut'"
    using tasks_rel_SomeI[OF f ut(1)] by blast
  then have 1: "\<exists>ut. get_task (reevaluate_waiting x m) u = Some ut \<and> state ut = WAITING \<and> task_id ut = u \<and> config ut = cfg"
    using ut assms(2) by (auto simp: requeues_def keeps_def)
  have 2: "\<forall>d \<in> set (dependencies cfg). \<exists>dt. get_task (reevaluate_waiting x m) d = Some dt \<and> state dt = COMPLETED"
  proof
    fix d assume "d \<in> set (dependencies cfg)"
    then obtain dt where dt: "get_task m d = Some dt" "state dt = COMPLETED" using deps by auto
    obtain dt' where "get_task (reevaluate_waiting x m) d = Some dt'" "requeues x d dt dt'"
      using tasks_rel_SomeI[OF f dt(1)] by blast
    then show "\<exists>dt. get_task (reevaluate_waiting x m) d = Some dt \<and> state dt = COMPLETED"
      using dt(2) by (auto simp: requeues_def)
  qed
  show ?thesis using 1 2 by (simp add: ready_waiting_def)
qed

lemma reevaluate_keeps_queued:
  assumes "queued_in u cfg m"
  shows "queued_in u cfg (reevaluate_waiting x m)"
proof -
  have f: "tasks_rel (requeues x) m (reevaluate_waiting x m)" by (rule reevaluate_waiting_frame)
  from assms obtain ut where ut: "get_task m u = Some ut" "state ut = QUEUED"
    and q: "u \<in> set (priority_queues m (priority cfg))" by (auto simp: queued_in_def)
  obtain ut' where "get_task (reevaluate_waiting x m) u = Some ut'" "requeues x u ut ut'"
    using tasks_rel_SomeI[OF f ut(1)] by blast
  then have 1: "\<exists>ut. get_task (reevaluate_waiting x m) u = Some ut \<and> state ut = QUEUED"
    using ut(2) by (auto simp: requeues_def)
  obtain ys where "priority_queues (reevaluate_waiting x m) (priority cfg) = priority_queues m (priority cfg) @ ys"
    using reevaluate_waiting_queues by blast
  then show ?thesis using 1 q by (simp add: queued_in_def)
qed

lemma fold_reevaluate_keeps_queued:
  "queued_in u cfg m \<Longrightarrow> queued_in u cfg (fold reevaluate_waiting xs m)"
  by (induction xs arbitrary: m) (simp_all add: reevaluate_keeps_queued)

lemma fold_reevaluate_ready:
  "u \<in> set xs \<Longrightarrow> ready_waiting u cfg m \<Longrightarrow> queued_in u cfg (fold reevaluate_waiting xs m)"
proof (induction xs arbitrary: m)
  case Nil then show ?case by simp
next
  case (Cons x xs)
  show ?case
  proof (cases "x = u")
    case True
    then show ?thesis using Cons.prems(2) by (simp add: reevaluate_ready fold_reevaluate_keeps_queued)
  next
    case False
    then have "u \<in> set xs" using Cons.prems(1) by auto
    moreover have "ready_waiting u cfg (reevaluate_waiting x m)"
      using Cons.prems(2) False by (rule reevaluate_keeps_ready)
    ultimately have "queued_in u cfg (fold reevaluate_waiting xs (reevaluate_waiting x m))"
      by (rule Cons.IH)
    then show ?thesis by simp
  qed
qed


text \<open>What the notification does where it is run: a task \<open>u\<close> recorded in the dependents of
  \<open>tid\<close> that is \<open>WAITING\<close> and whose dependencies all exist and are \<open>COMPLETED\<close> is \<open>QUEUED\<close>
  afterwards, with its id in the queue of its priority.\<close>

theorem notify_dependents_enqueues:
  assumes "get_task m tid = Some t" and "u \<in> set (dependents t)"
    and "get_task m u = Some ut" and "state ut = WAITING" and "task_id ut = u"
    and "\<forall>d \<in> set (dependencies (config ut)). \<exists>dt. get_task m d = Some dt \<and> state dt = COMPLETED"
  shows "\<exists>ut'. get_task (notify_dependents tid m) u = Some ut' \<and> state ut' = QUEUED \<and>
           u \<in> set (priority_queues (notify_dependents tid m) (priority (config ut)))"
proof -
  have "ready_waiting u (config ut) m" using assms(3-6) by (simp add: ready_waiting_def)
  then have "queued_in u (config ut) (fold reevaluate_waiting (dependents t) m)"
    using assms(2) by (rule fold_reevaluate_ready[rotated])
  then show ?thesis using assms(1) by (simp add: notify_dependents_def queued_in_def)
qed

text \<open>An instance: \<open>a\<close> has completed, and \<open>c\<close>, recorded in its dependents, waits for it.\<close>

theorem notify_dependents_enqueues_witness:
  "get_task notified_manager ''a''
     = Some ((demo_task ''a'' default_TaskConfig COMPLETED)\<lparr>dependents := [''c'']\<rparr>) \<and>
   get_task notified_manager ''c''
     = Some (demo_task ''c'' (default_TaskConfig\<lparr>dependencies := [''a'']\<rparr>) WAITING) \<and>
   (\<exists>ut'. get_task (notify_dependents ''a'' notified_manager) ''c'' = Some ut' \<and> state ut' = QUEUED \<and>
      ''c'' \<in> set (priority_queues (notify_dependents ''a'' notified_manager) NORMAL))"
proof -
  let ?a = "(demo_task ''a'' default_TaskConfig COMPLETED)\<lparr>dependents := [''c'']\<rparr>"
  let ?c = "demo_task ''c'' (default_TaskConfig\<lparr>dependencies := [''a'']\<rparr>) WAITING"
  have 1: "get_task notified_manager ''a'' = Some ?a"
    by (simp add: notified_manager_def get_task_def)
  have 2: "''c'' \<in> set (dependents ?a)" by simp
  have 3: "get_task notified_manager ''c'' = Some ?c"
    by (simp add: notified_manager_def get_task_def)
  have 4: "state ?c = WAITING" and 5: "task_id ?c = ''c''" by (simp_all add: demo_task_def)
  have 6: "\<forall>d \<in> set (dependencies (config ?c)). \<exists>dt. get_task notified_manager d = Some dt \<and> state dt = COMPLETED"
    by (simp add: demo_task_def notified_manager_def get_task_def)
  have 7: "priority (config ?c) = NORMAL" by (simp add: demo_task_def default_TaskConfig_def)
  show ?thesis using 1 3 notify_dependents_enqueues[OF 1 2 3 4 5 6] unfolding 7 by blast
qed

section \<open>The retry count\<close>






lemma calm_refl [simp]: "calm y t t" by (simp add: calm_def)

lemma calm_trans: "calm y a b \<Longrightarrow> calm y b c \<Longrightarrow> calm y a c"
  by (auto simp: calm_def keeps_def)


lemma only_cancels_calm: "only_cancels x y a b \<Longrightarrow> calm y a b"
  by (auto simp: only_cancels_def calm_def)


lemma manager_task_cancel [simp]: "manager (task_cancel h s) = manager s"
  by (simp add: task_cancel_def)

lemma manager_in_manager [simp]: "manager (in_manager f s) = f (manager s)"
  by (simp add: in_manager_def)















lemma tasks_execute_task_finally [simp]: "tasks (execute_task_finally m) = tasks m"
  by (simp add: execute_task_finally_def)











end
